theory Spec2Isabelle
  imports Complex_Main "HOL-Library.Word"
begin

section \<open>Errors\<close>

text \<open>
  The C++ source signals failure with \<open>throw "..."\<close>. Each throw site is one constructor:
  \<^item> \<open>ValidationError\<close>: "Database size is different from feature set size!" (train);
  \<^item> \<open>StateError\<close>: "Asking for SVM bias term but there is no model...",
    "Asking for SVM weights but there is no model...", "No model to be saved";
  \<^item> \<open>IOError\<close>: "Failed to open file ... for reading",
    "Error while trying to write model to file";
  \<^item> \<open>ModelError\<close>: "Failed to load SVM model".
  Two faults are not throws of the source but what its unguarded accesses run into:
  \<open>NullPointer\<close> (libsvm dereferences the model pointer it is handed) and
  \<open>OutOfRange\<close> (an element of a \<open>cv::Mat\<close> or of a \<open>std::vector\<close> that does not exist).
  \<open>BadAlloc\<close> is the exception of a \<open>new[]\<close> expression that cannot be served.
\<close>

datatype error =
    ValidationError
  | StateError
  | IOError
  | ModelError
  | NullPointer
  | OutOfRange
  | BadAlloc

section \<open>Descriptors\<close>

text \<open>
  SupportVectorMachine.cpp uses a \<open>Feature\<close> through \<open>size()\<close> and \<open>at<float>(i, j)\<close>, that
  is, as a two-dimensional \<open>cv::Mat\<close> of floats: \<open>rows\<close> by \<open>cols\<close> elements of \<open>channels\<close>
  floats each, stored row by row. Floats are modelled as reals.
\<close>

record Size =
  width :: nat
  height :: nat

record Feature =
  rows :: nat
  cols :: nat
  channels :: nat
  elems :: "real list"

text \<open>\<open>cv::Mat::size()\<close> is \<open>Size(cols, rows)\<close>.\<close>

definition Feature_size :: "Feature \<Rightarrow> Size" where
  "Feature_size f = \<lparr>width = cols f, height = rows f\<rparr>"

text \<open>
  \<open>cv::Mat::at<float>(i0, i1)\<close> is float number \<open>i1\<close> of row \<open>i0\<close>; it exists when
  \<open>i0 < rows\<close> and \<open>i1 < cols * channels\<close>.
\<close>

definition at_float :: "Feature \<Rightarrow> nat \<Rightarrow> nat \<Rightarrow> error + real" where
  "at_float f i0 i1 =
     (if i0 < rows f \<and> i1 < cols f * channels f
         \<and> i0 * (cols f * channels f) + i1 < length (elems f)
      then Inr (elems f ! (i0 * (cols f * channels f) + i1))
      else Inl OutOfRange)"

text \<open>\<open>Mat::zeros(rows, cols, CV_32FC2)\<close>: two floats per element, all zero.\<close>

definition Mat_zeros_32FC2 :: "nat \<Rightarrow> nat \<Rightarrow> Feature" where
  "Mat_zeros_32FC2 r c = \<lparr>rows = r, cols = c, channels = 2, elems = replicate (r * c * 2) 0\<rparr>"

section \<open>The libsvm interface\<close>

text \<open>
  \<open>svm_node\<close> is libsvm's (index, value) pair; a sparse vector is a run of nodes closed
  by one whose index is \<open>-1\<close>.
\<close>

record svm_node =
  index :: int
  value' :: real

text \<open>
  \<open>svm_problem\<close>: \<open>l\<close> training vectors, their targets \<open>y\<close>, and \<open>x[k]\<close>, the address of the
  first node of vector \<open>k\<close>, kept here as an offset into the node buffer it points into.
\<close>

record svm_problem =
  prob_l :: nat
  prob_y :: "real list"
  prob_x :: "nat list"

text \<open>The fields of libsvm's \<open>svm_model\<close> for a two-class model: \<open>SV\<close>, \<open>sv_coef[0]\<close>, \<open>rho[0]\<close>.\<close>

record svm_model =
  SV :: "svm_node list list"
  sv_coef :: "real list"
  rho :: real

type_synonym FILE = string

text \<open>
  libsvm, the C file functions and the allocator are not part of the repository; the
  operations below take them as a parameter. A null result pointer is \<open>None\<close>.
  \<open>svm_train\<close> reads the problem and the node buffer its rows point into.
  \<open>new_svm_node n\<close> tells whether \<open>new svm_node[n]\<close> is served; it throws otherwise.
\<close>

record 'p extern =
  svm_train :: "svm_problem \<Rightarrow> svm_node list \<Rightarrow> 'p \<Rightarrow> svm_model option"
  svm_predict_values :: "svm_model \<Rightarrow> svm_node list \<Rightarrow> real"
  svm_load_model_fp :: "FILE \<Rightarrow> svm_model option"
  svm_save_model_fp :: "FILE \<Rightarrow> svm_model \<Rightarrow> int \<times> FILE"
  fopen_rb :: "string \<Rightarrow> FILE option"
  new_svm_node :: "nat \<Rightarrow> bool"

section \<open>The classifier object\<close>

text \<open>
  Calls that acquire or release what the classifier owns, and calls into the solver and
  the decoder, are recorded in the order the source makes them.
\<close>

datatype event =
    NewData
  | DeleteData
  | NewModel
  | FreeModel
  | SolverCalled
  | DecoderCalled

text \<open>
  The members \<open>_model\<close>, \<open>_data\<close> and \<open>_fVecShape\<close>; \<open>trace\<close> is the record of events.
\<close>

record SupportVectorMachine =
  model :: "svm_model option"
  data :: "svm_node list option"
  fVecShape :: Size
  trace :: "event list"

text \<open>
  The default constructor sets \<open>_model\<close> and \<open>_data\<close> to \<open>NULL\<close>; \<open>_fVecShape\<close> is
  default-constructed (0 by 0).
\<close>

definition SupportVectorMachine_init :: SupportVectorMachine where
  "SupportVectorMachine_init =
     \<lparr>model = None, data = None, fVecShape = \<lparr>width = 0, height = 0\<rparr>, trace = []\<rparr>"

definition emit :: "event list \<Rightarrow> SupportVectorMachine \<Rightarrow> SupportVectorMachine" where
  "emit es s = s\<lparr>trace := trace s @ es\<rparr>"

definition deinit :: "SupportVectorMachine \<Rightarrow> SupportVectorMachine" where
  "deinit s =
     (let s1 = (if model s \<noteq> None then emit [FreeModel] s else s);
          s2 = (if data s1 \<noteq> None then emit [DeleteData] s1 else s1)
      in s2\<lparr>model := None, data := None\<rparr>)"

text \<open>The destructor.\<close>

definition destroy :: "SupportVectorMachine \<Rightarrow> SupportVectorMachine" where
  "destroy s = deinit s"

subsection \<open>train\<close>

text \<open>
  The inner loop of \<open>train\<close> over \<open>i = 0 .. dim\<close>, writing block \<open>k\<close> of the buffer. It
  stops at the first element that does not exist; the index of that node is already
  written then.
\<close>

fun copy_feature ::
  "Feature \<Rightarrow> nat \<Rightarrow> nat \<Rightarrow> nat list \<Rightarrow> svm_node list \<Rightarrow> error option \<times> svm_node list" where
  "copy_feature currentFeature k dim' [] buf = (None, buf)"
| "copy_feature currentFeature k dim' (i # is) buf =
     (if i \<noteq> dim' then
        (let buf1 = buf[k * (dim' + 1) + i := (buf ! (k * (dim' + 1) + i))\<lparr>index := int i\<rparr>]
         in case at_float currentFeature i 1 of
              Inl e \<Rightarrow> (Some e, buf1)
            | Inr v \<Rightarrow>
                copy_feature currentFeature k dim' is
                  (buf1[k * (dim' + 1) + i := (buf1 ! (k * (dim' + 1) + i))\<lparr>value' := v\<rparr>]))
      else
        copy_feature currentFeature k dim' is
          (buf[k * (dim' + 1) + dim' := (buf ! (k * (dim' + 1) + dim'))\<lparr>index := - 1\<rparr>]))"

text \<open>The outer loop over \<open>k = 0 .. nVecs - 1\<close>; its state is \<open>problem.y\<close>, \<open>problem.x\<close>, \<open>_data\<close>.\<close>

fun copy_vectors ::
  "real list \<Rightarrow> Feature list \<Rightarrow> nat \<Rightarrow> nat list \<Rightarrow>
   real list \<times> nat list \<times> svm_node list \<Rightarrow>
   error option \<times> real list \<times> nat list \<times> svm_node list" where
  "copy_vectors labels fset dim' [] st = (None, st)"
| "copy_vectors labels fset dim' (k # ks) (py, px, buf) =
     (let py1 = py[k := labels ! k];
          px1 = px[k := k * (dim' + 1)]
      in case copy_feature (fset ! k) k dim' [0..<dim' + 1] buf of
           (Some e, buf1) \<Rightarrow> (Some e, py1, px1, buf1)
         | (None, buf1) \<Rightarrow> copy_vectors labels fset dim' ks (py1, px1, buf1))"

text \<open>
  A freshly allocated array holds no meaningful values; the model starts every cell at
  zero. The loops overwrite every cell they later hand on, except the value of the
  closing node of each block, which the source leaves unwritten.
\<close>

definition fresh_nodes :: "nat \<Rightarrow> svm_node list" where
  "fresh_nodes n = replicate n \<lparr>index = 0, value' = 0\<rparr>"

text \<open>
  Line 70 deletes the old buffer and leaves its address in \<open>_data\<close>. Line 89 allocates
  \<open>nVecs * (dim + 1)\<close> nodes; when that throws, the call ends with \<open>_data\<close> still holding
  the deleted address and \<open>_model\<close> untouched. The product is an \<open>int\<close> in the source: a
  product past 2147483647 does not fit and the source's behaviour is undefined there;
  the allocation is taken to fail then. (\<open>problem.y\<close> and \<open>problem.x\<close> are temporaries of the
  call; the classifier does not own them and they are not traced.)
\<close>

definition train ::
  "'p extern \<Rightarrow> SupportVectorMachine \<Rightarrow> real list \<Rightarrow> Feature list \<Rightarrow> 'p \<Rightarrow>
   (error + unit) \<times> SupportVectorMachine" where
  "train ext s labels fset parameter =
     (if length labels \<noteq> length fset then (Inl ValidationError, s)
      else case fset of
        [] \<Rightarrow> (Inl OutOfRange, s)
      | f0 # _ \<Rightarrow>
          (let nVecs = length labels;
               shape = Feature_size f0;
               dim' = width shape * height shape;
               s1 = (if data s \<noteq> None then emit [DeleteData] s else s)
           in if nVecs * (dim' + 1) \<le> 2147483647 \<and> new_svm_node ext (nVecs * (dim' + 1))
              then
                (let s2 = emit [NewData] s1
                 in case copy_vectors labels fset dim' [0..<nVecs]
                           (replicate nVecs 0, replicate nVecs 0,
                            fresh_nodes (nVecs * (dim' + 1))) of
                      (Some e, py, px, buf) \<Rightarrow> (Inl e, s2\<lparr>data := Some buf\<rparr>)
                    | (None, py, px, buf) \<Rightarrow>
                        (let s3 = s2\<lparr>data := Some buf\<rparr>;
                             s4 = (if model s3 \<noteq> None then emit [FreeModel] s3 else s3);
                             m = svm_train ext \<lparr>prob_l = nVecs, prob_y = py, prob_x = px\<rparr>
                                   buf parameter;
                             s5 = emit (SolverCalled # (if m \<noteq> None then [NewModel] else []))
                                   s4
                         in (Inr (), s5\<lparr>model := m\<rparr>)))
              else (Inl BadAlloc, s1)))"

text \<open>
  What \<open>train\<close> hands to the solver when the buffer is allocated: the problem and the
  node buffer.
\<close>

definition train_problem ::
  "real list \<Rightarrow> Feature list \<Rightarrow> error + svm_problem \<times> svm_node list" where
  "train_problem labels fset =
     (case fset of
        [] \<Rightarrow> Inl OutOfRange
      | f0 # _ \<Rightarrow>
          (let nVecs = length labels;
               shape = Feature_size f0;
               dim' = width shape * height shape
           in case copy_vectors labels fset dim' [0..<nVecs]
                     (replicate nVecs 0, replicate nVecs 0, fresh_nodes (nVecs * (dim' + 1))) of
                (Some e, py, px, buf) \<Rightarrow> Inl e
              | (None, py, px, buf) \<Rightarrow> Inr (\<lparr>prob_l = nVecs, prob_y = py, prob_x = px\<rparr>, buf)))"

subsection \<open>predict\<close>

text \<open>The loop of \<open>predict\<close> over \<open>i = 0 .. dim - 1\<close>, writing \<open>svmNode\<close>.\<close>

fun fill_nodes :: "Feature \<Rightarrow> nat list \<Rightarrow> svm_node list \<Rightarrow> error + svm_node list" where
  "fill_nodes feature [] svmNode = Inr svmNode"
| "fill_nodes feature (i # is) svmNode =
     (case at_float feature i 0 of
        Inl e \<Rightarrow> Inl e
      | Inr d \<Rightarrow> fill_nodes feature is (svmNode[i := \<lparr>index = int i, value' = d\<rparr>]))"

text \<open>
  \<open>predict\<close> has no check of \<open>_model\<close>: it passes the pointer to \<open>svm_predict_values\<close>, which
  reads through it. The source returns the \<open>double\<close> decision value as a \<open>float\<close>; values
  are reals here, and that narrowing is left out, as is the range of \<open>int dim\<close>.
\<close>

definition predict :: "'p extern \<Rightarrow> SupportVectorMachine \<Rightarrow> Feature \<Rightarrow> error + real" where
  "predict ext s feature =
     (let shape = Feature_size feature;
          dim' = width shape * height shape
      in case fill_nodes feature [0..<dim'] (fresh_nodes (dim' + 1)) of
           Inl e \<Rightarrow> Inl e
         | Inr svmNode \<Rightarrow>
             (let nodes = svmNode[dim' := (svmNode ! dim')\<lparr>index := - 1\<rparr>]
              in case model s of
                   None \<Rightarrow> Inl NullPointer
                 | Some m \<Rightarrow> Inr (svm_predict_values ext m nodes)))"

subsection \<open>getBiasTerm, getWeights\<close>

definition getBiasTerm :: "SupportVectorMachine \<Rightarrow> error + real" where
  "getBiasTerm s = (case model s of None \<Rightarrow> Inl StateError | Some m \<Rightarrow> Inr (rho m))"

text \<open>
  \<open>getWeights\<close> returns \<open>Mat::zeros(_fVecShape.width, _fVecShape.height, CV_32FC2)\<close>; the loop
  over the support vectors is commented out in the source.
\<close>

definition getWeights :: "SupportVectorMachine \<Rightarrow> error + Feature" where
  "getWeights s =
     (case model s of
        None \<Rightarrow> Inl StateError
      | Some m \<Rightarrow> Inr (Mat_zeros_32FC2 (width (fVecShape s)) (height (fVecShape s))))"

subsection \<open>load, save\<close>

definition load_fp ::
  "'p extern \<Rightarrow> SupportVectorMachine \<Rightarrow> FILE \<Rightarrow> (error + unit) \<times> SupportVectorMachine" where
  "load_fp ext s fp =
     (let s1 = deinit s;
          m = svm_load_model_fp ext fp;
          s2 = (emit (DecoderCalled # (if m \<noteq> None then [NewModel] else [])) s1)\<lparr>model := m\<rparr>
      in if m = None then (Inl ModelError, s2) else (Inr (), s2))"

definition load ::
  "'p extern \<Rightarrow> SupportVectorMachine \<Rightarrow> string \<Rightarrow> (error + unit) \<times> SupportVectorMachine" where
  "load ext s filename =
     (case fopen_rb ext filename of
        None \<Rightarrow> (Inl IOError, s)
      | Some f \<Rightarrow> load_fp ext s f)"

text \<open>\<open>save(FILE*)\<close>: the result is the stream after writing.\<close>

definition save :: "'p extern \<Rightarrow> SupportVectorMachine \<Rightarrow> FILE \<Rightarrow> error + FILE" where
  "save ext s fp =
     (case model s of
        None \<Rightarrow> Inl StateError
      | Some m \<Rightarrow>
          (case svm_save_model_fp ext fp m of
             (status, fp1) \<Rightarrow> if status \<noteq> 0 then Inl IOError else Inr fp1))"

text \<open>
  The constructor from a file name: \<open>_model(NULL), _data(NULL)\<close>, then \<open>load(modelFName)\<close>.
  An exception leaving the constructor leaves no object.
\<close>

definition SupportVectorMachine_from_file ::
  "'p extern \<Rightarrow> string \<Rightarrow> error + SupportVectorMachine" where
  "SupportVectorMachine_from_file ext modelFName =
     (case load ext SupportVectorMachine_init modelFName of
        (Inl e, s) \<Rightarrow> Inl e
      | (Inr u, s) \<Rightarrow> Inr s)"

section \<open>The feature extractor\<close>








section \<open>Ownership of the model and of the training buffer\<close>

text \<open>
  \<open>replay\<close> runs a trace from the pair (a model is live, a buffer is live). It fails when
  a model or buffer is acquired while one is still live, or released while none is live
  (a second \<open>delete[]\<close> of the same buffer).
\<close>

fun replay :: "event list \<Rightarrow> bool \<times> bool \<Rightarrow> (bool \<times> bool) option" where
  "replay [] st = Some st"
| "replay (NewModel # es) (m, d) = (if m then None else replay es (True, d))"
| "replay (FreeModel # es) (m, d) = (if m then replay es (False, d) else None)"
| "replay (NewData # es) (m, d) = (if d then None else replay es (m, True))"
| "replay (DeleteData # es) (m, d) = (if d then replay es (m, False) else None)"
| "replay (SolverCalled # es) st = replay es st"
| "replay (DecoderCalled # es) st = replay es st"

section \<open>Descriptor shapes\<close>

text \<open>All descriptors of a batch have the size of the first.\<close>

definition uniform_shape :: "Feature list \<Rightarrow> bool" where
  "uniform_shape fset = list_all (\<lambda>f. Feature_size f = Feature_size (hd fset)) fset"

section \<open>The linear decision function\<close>

text \<open>
  Modelled from the spec: \<open>svm_predict_values\<close> is libsvm's and not in the repository.
  For a linear kernel the spec gives the score as \<open>dot(descriptor, weights) - bias\<close>, with
  the weights in dual form (the source's comment in \<open>predictSlidingWindow\<close> says the same:
  \<open>pred <- dot(feat, weights) - bias term\<close>). \<open>dot\<close> walks two node runs up to the first
  closing node; the decision value is the sum of \<open>sv_coef[0][s] * dot(x, SV[s])\<close> less
  \<open>rho[0]\<close>.
\<close>

fun dot :: "svm_node list \<Rightarrow> svm_node list \<Rightarrow> real" where
  "dot (p # ps) (q # qs) =
     (if index p = - 1 \<or> index q = - 1 then 0
      else if index p = index q then value' p * value' q + dot ps qs
      else if index p > index q then dot (p # ps) qs
      else dot ps (q # qs))"
| "dot [] qs = 0"
| "dot ps [] = 0"

definition linear_decision :: "svm_model \<Rightarrow> svm_node list \<Rightarrow> real" where
  "linear_decision m x = (\<Sum>(c, sv) \<leftarrow> zip (sv_coef m) (SV m). c * dot x sv) - rho m"

section \<open>A stand-in for libsvm and the file system\<close>

text \<open>
  Used to run the operations on concrete inputs: a solver that keeps every training
  vector as a support vector with its label as coefficient, a decoder that knows one
  stream, a file system with two files, and an allocator that serves every request.
\<close>

definition example_model :: svm_model where
  "example_model =
     \<lparr>SV = [[\<lparr>index = 0, value' = 1\<rparr>, \<lparr>index = - 1, value' = 0\<rparr>]], sv_coef = [1], rho = 0\<rparr>"

definition example_extern :: "unit extern" where
  "example_extern =
     \<lparr>svm_train = (\<lambda>p buf u.
        Some \<lparr>SV = map (\<lambda>off. takeWhile (\<lambda>n. index n \<noteq> - 1) (drop off buf)
                               @ [\<lparr>index = - 1, value' = 0\<rparr>]) (prob_x p),
              sv_coef = prob_y p, rho = 0\<rparr>),
      svm_predict_values = linear_decision,
      svm_load_model_fp = (\<lambda>fp. if fp = ''model'' then Some example_model else None),
      svm_save_model_fp = (\<lambda>fp m. (0, fp @ ''model'')),
      fopen_rb = (\<lambda>name. if name = ''svm.model'' then Some ''model''
                           else if name = ''bad.model'' then Some ''garbage'' else None),
      new_svm_node = (\<lambda>n. True)\<rparr>"

text \<open>A classifier trained on two descriptors of one cell with two floats.\<close>

definition trained_example :: SupportVectorMachine where
  "trained_example = snd (train example_extern SupportVectorMachine_init [1, - 1]
      [\<lparr>rows = 1, cols = 1, channels = 2, elems = [5, 7]\<rparr>,
       \<lparr>rows = 1, cols = 1, channels = 2, elems = [6, 8]\<rparr>] ())"

section \<open>The serialised form\<close>

text \<open>
  Modelled from the spec: \<open>svm_save_model_fp\<close> and \<open>svm_load_model_fp\<close> are libsvm's and not
  in the repository. The spec has \<open>save\<close> persist and \<open>load\<close> restore the full model
  (support vectors, coefficients, bias, kernel descriptor) in a stable serialised form:
  writing model \<open>m\<close> to the stream succeeds, and the decoder reads \<open>m\<close> from what was
  written.
\<close>

definition stable_form :: "'p extern \<Rightarrow> FILE \<Rightarrow> svm_model \<Rightarrow> bool" where
  "stable_form ext fp m =
     (case svm_save_model_fp ext fp m of
        (status, fp1) \<Rightarrow> status = 0 \<and> svm_load_model_fp ext fp1 = Some m)"

section \<open>Dense evaluation\<close>

text \<open>
  Modelled from the spec: \<open>predictSlidingWindow\<close> is commented out in the source (lines
  239-287, its body a TODO), so the dense path is taken from the spec and from the
  source's comment: each band of the weights is correlated with the same band of the
  descriptor map, the results are added, and the bias is subtracted from every cell.
  The descriptor map and the template are \<open>Feature\<close>s, \<open>rows\<close> by \<open>cols\<close> cells of
  \<open>channels\<close> floats each.
\<close>

definition cell :: "Feature \<Rightarrow> nat \<Rightarrow> nat \<Rightarrow> nat \<Rightarrow> real" where
  "cell g r c ch = elems g ! ((r * cols g + c) * channels g + ch)"

definition correlate :: "Feature \<Rightarrow> Feature \<Rightarrow> nat \<Rightarrow> nat \<Rightarrow> nat \<Rightarrow> real" where
  "correlate k g ch r c =
     (\<Sum>dr \<leftarrow> [0..<rows k]. \<Sum>dc \<leftarrow> [0..<cols k].
        cell k dr dc ch * cell g (r + dr) (c + dc) ch)"

text \<open>
  Modelled from the spec: the response map for a template \<open>k\<close> and a bias \<open>b\<close>. It has one
  cell per window that lies inside the map.
\<close>

definition response_map :: "Feature \<Rightarrow> real \<Rightarrow> Feature \<Rightarrow> real list list" where
  "response_map k b feat =
     map (\<lambda>r. map (\<lambda>c. (\<Sum>ch \<leftarrow> [0..<channels k]. correlate k feat ch r c) - b)
                   [0..<cols feat + 1 - cols k])
         [0..<rows feat + 1 - rows k]"


text \<open>
  Modelled from the spec: the window of \<open>h\<close> by \<open>w\<close> cells at row \<open>r\<close>, column \<open>c\<close>, cropped
  into a descriptor of its own, of the template's shape.
\<close>

definition crop :: "Feature \<Rightarrow> nat \<Rightarrow> nat \<Rightarrow> nat \<Rightarrow> nat \<Rightarrow> Feature" where
  "crop g r c h w =
     \<lparr>rows = h, cols = w, channels = channels g,
      elems = map (\<lambda>i. cell g (r + i div (w * channels g))
                               (c + i div channels g mod w)
                               (i mod channels g))
                  [0..<h * w * channels g]\<rparr>"

text \<open>
  The floats of a descriptor as one column of single floats: the shape on which \<open>predict\<close>,
  reading float 0 of each of \<open>width * height\<close> rows, reads every float.
\<close>

definition as_column :: "Feature \<Rightarrow> Feature" where
  "as_column f = \<lparr>rows = length (elems f), cols = 1, channels = 1, elems = elems f\<rparr>"

text \<open>
  Modelled from the spec: the weight template the spec asks of \<open>getWeights\<close>, the sum of
  \<open>coefficient[s] * supportVector[s]\<close> over the support vectors in an array of the
  descriptor's shape (the commented-out loop of the source reads support vector \<open>s\<close> at
  position \<open>d\<close>). The source's \<open>getWeights\<close>, defined above, does not compute it.
\<close>

definition primal_weights :: "svm_model \<Rightarrow> nat \<Rightarrow> nat \<Rightarrow> nat \<Rightarrow> Feature" where
  "primal_weights m h w depth =
     \<lparr>rows = h, cols = w, channels = depth,
      elems = map (\<lambda>d. \<Sum>(coeff, sv) \<leftarrow> zip (sv_coef m) (SV m). coeff * value' (sv ! d))
                  [0..<h * w * depth]\<rparr>"

text \<open>A dense vector of \<open>n\<close> values: node \<open>i\<close> has index \<open>i\<close>, and node \<open>n\<close> closes the run.\<close>

definition dense :: "nat \<Rightarrow> svm_node list \<Rightarrow> bool" where
  "dense n sv \<longleftrightarrow>
     length sv = n + 1 \<and> list_all (\<lambda>i. index (sv ! i) = int i) [0..<n] \<and> index (sv ! n) = - 1"




text \<open>The node run of a list of floats.\<close>

definition encode :: "real list \<Rightarrow> svm_node list" where
  "encode xs = map (\<lambda>i. \<lparr>index = int i, value' = xs ! i\<rparr>) [0..<length xs]
                 @ [\<lparr>index = - 1, value' = 0\<rparr>]"

section \<open>Operations on a classifier without a model\<close>

lemma fill_nodes_error: "fill_nodes f js buf = Inl e \<Longrightarrow> e = OutOfRange"
proof (induction js arbitrary: buf)
  case Nil
  then show ?case by simp
next
  case (Cons j js)
  then show ?case
    by (auto simp: at_float_def split: sum.splits if_splits)
qed

lemma no_model_StateError:
  assumes "model s = None"
  shows "getBiasTerm s = Inl StateError"
    and "getWeights s = Inl StateError"
    and "save ext s fp = Inl StateError"
  using assms by (simp_all add: getBiasTerm_def getWeights_def save_def)

lemma predict_no_model:
  assumes "model s = None"
  shows "predict ext s f = Inl NullPointer \<or> predict ext s f = Inl OutOfRange"
proof (cases "fill_nodes f [0..<width (Feature_size f) * height (Feature_size f)]
               (fresh_nodes (width (Feature_size f) * height (Feature_size f) + 1))")
  case (Inl e)
  then have "e = OutOfRange" by (rule fill_nodes_error)
  with Inl show ?thesis by (simp add: predict_def Let_def)
next
  case (Inr nodes)
  with assms show ?thesis by (simp add: predict_def Let_def)
qed

text \<open>
  C3. On a classifier that holds no model, \<open>getWeights\<close>, \<open>getBiasTerm\<close> and \<open>save\<close> fail
  with \<open>StateError\<close>, but \<open>predict\<close> does not: it has no check of the model and hands the
  null pointer to libsvm. On a fresh classifier and a one-element descriptor the outcome
  is the null dereference.
\<close>

theorem predict_fresh_is_null_dereference:
  "predict ext SupportVectorMachine_init \<lparr>rows = 1, cols = 1, channels = 1, elems = [v]\<rparr>
     = Inl NullPointer
   \<and> getBiasTerm SupportVectorMachine_init = Inl StateError
   \<and> getWeights SupportVectorMachine_init = Inl StateError
   \<and> save ext SupportVectorMachine_init fp = Inl StateError"
  by (simp add: predict_def getBiasTerm_def getWeights_def save_def SupportVectorMachine_init_def
      Feature_size_def fresh_nodes_def at_float_def)

section \<open>The scale factor\<close>











section \<open>load\<close>

lemma deinit_fields:
  "model (deinit s) = None" "data (deinit s) = None" "fVecShape (deinit s) = fVecShape s"
  "trace (deinit s) = trace s @ (if model s \<noteq> None then [FreeModel] else [])
                              @ (if data s \<noteq> None then [DeleteData] else [])"
  by (simp_all add: deinit_def emit_def Let_def)

lemma load_fp_fields:
  "model (snd (load_fp ext s fp)) = svm_load_model_fp ext fp"
  "data (snd (load_fp ext s fp)) = None"
  "fVecShape (snd (load_fp ext s fp)) = fVecShape s"
  "trace (snd (load_fp ext s fp)) =
     trace (deinit s) @ DecoderCalled # (if svm_load_model_fp ext fp \<noteq> None then [NewModel] else [])"
  "fst (load_fp ext s fp) = (if svm_load_model_fp ext fp = None then Inl ModelError else Inr ())"
  by (simp_all add: load_fp_def emit_def Let_def deinit_fields)

lemma predict_depends_on_model:
  "model s = model t \<Longrightarrow> predict ext s f = predict ext t f"
  by (simp add: predict_def Let_def split: sum.splits)

text \<open>
  C9. \<open>load\<close> from a stream releases the model and the buffer the classifier holds and
  only then calls the decoder. When the stream does not decode, \<open>load\<close> fails with
  \<open>ModelError\<close> and the classifier holds neither model nor buffer; \<open>getBiasTerm\<close>,
  \<open>getWeights\<close>, \<open>save\<close> and \<open>predict\<close> then give what they give on a fresh classifier.
\<close>

theorem load_fp_releases_first:
  "trace (snd (load_fp ext s fp)) =
     trace s @ (if model s \<noteq> None then [FreeModel] else [])
             @ (if data s \<noteq> None then [DeleteData] else [])
             @ DecoderCalled # (if svm_load_model_fp ext fp \<noteq> None then [NewModel] else [])
   \<and> (svm_load_model_fp ext fp = None \<longrightarrow>
        fst (load_fp ext s fp) = Inl ModelError
        \<and> model (snd (load_fp ext s fp)) = None
        \<and> data (snd (load_fp ext s fp)) = None
        \<and> getBiasTerm (snd (load_fp ext s fp)) = getBiasTerm SupportVectorMachine_init
        \<and> getWeights (snd (load_fp ext s fp)) = getWeights SupportVectorMachine_init
        \<and> save ext (snd (load_fp ext s fp)) out = save ext SupportVectorMachine_init out
        \<and> predict ext (snd (load_fp ext s fp)) f = predict ext SupportVectorMachine_init f)"
proof -
  have tr: "trace (snd (load_fp ext s fp)) =
     trace s @ (if model s \<noteq> None then [FreeModel] else [])
             @ (if data s \<noteq> None then [DeleteData] else [])
             @ DecoderCalled # (if svm_load_model_fp ext fp \<noteq> None then [NewModel] else [])"
    by (simp add: load_fp_fields deinit_fields)
  have fail: "fst (load_fp ext s fp) = Inl ModelError
        \<and> model (snd (load_fp ext s fp)) = None
        \<and> data (snd (load_fp ext s fp)) = None
        \<and> getBiasTerm (snd (load_fp ext s fp)) = getBiasTerm SupportVectorMachine_init
        \<and> getWeights (snd (load_fp ext s fp)) = getWeights SupportVectorMachine_init
        \<and> save ext (snd (load_fp ext s fp)) out = save ext SupportVectorMachine_init out
        \<and> predict ext (snd (load_fp ext s fp)) f = predict ext SupportVectorMachine_init f"
    if none: "svm_load_model_fp ext fp = None"
  proof -
    have m: "model (snd (load_fp ext s fp)) = None"
      using none by (simp add: load_fp_fields)
    have m0: "model SupportVectorMachine_init = None"
      by (simp add: SupportVectorMachine_init_def)
    have "predict ext (snd (load_fp ext s fp)) f = predict ext SupportVectorMachine_init f"
      by (rule predict_depends_on_model) (simp add: m m0)
    then show ?thesis
      using none m m0 by (simp add: load_fp_fields no_model_StateError)
  qed
  from tr fail show ?thesis by blast
qed

lemma trained_example_eq:
  "trained_example =
     \<lparr>model = Some \<lparr>SV = [[\<lparr>index = 0, value' = 7\<rparr>, \<lparr>index = - 1, value' = 0\<rparr>],
                          [\<lparr>index = 0, value' = 8\<rparr>, \<lparr>index = - 1, value' = 0\<rparr>]],
                    sv_coef = [1, - 1], rho = 0\<rparr>,
      data = Some [\<lparr>index = 0, value' = 7\<rparr>, \<lparr>index = - 1, value' = 0\<rparr>,
                   \<lparr>index = 0, value' = 8\<rparr>, \<lparr>index = - 1, value' = 0\<rparr>],
      fVecShape = \<lparr>width = 0, height = 0\<rparr>,
      trace = [NewData, SolverCalled, NewModel]\<rparr>"
  by (simp add: trained_example_def train_def Feature_size_def fresh_nodes_def at_float_def
      example_extern_def emit_def SupportVectorMachine_init_def upt_rec)

theorem load_fp_releases_first_witness:
  "svm_load_model_fp example_extern ''garbage'' = None
   \<and> fst (load_fp example_extern trained_example ''garbage'') = Inl ModelError
   \<and> model (snd (load_fp example_extern trained_example ''garbage'')) = None
   \<and> data (snd (load_fp example_extern trained_example ''garbage'')) = None
   \<and> trace (snd (load_fp example_extern trained_example ''garbage''))
       = [NewData, SolverCalled, NewModel, FreeModel, DeleteData, DecoderCalled]
   \<and> predict example_extern (snd (load_fp example_extern trained_example ''garbage''))
        \<lparr>rows = 1, cols = 1, channels = 1, elems = [3]\<rparr> = Inl NullPointer"
proof -
  have none: "svm_load_model_fp example_extern ''garbage'' = None"
    by (simp add: example_extern_def)
  have fresh: "predict example_extern SupportVectorMachine_init
        \<lparr>rows = 1, cols = 1, channels = 1, elems = [3]\<rparr> = Inl NullPointer"
    by (simp add: predict_def SupportVectorMachine_init_def Feature_size_def fresh_nodes_def
        at_float_def)
  show ?thesis
    using load_fp_releases_first [of example_extern trained_example "''garbage''" "''''"
        "\<lparr>rows = 1, cols = 1, channels = 1, elems = [3]\<rparr>"] none fresh
    by (simp add: trained_example_eq)
qed

section \<open>Construction from a file\<close>

text \<open>
  C10. The constructor from a file name is \<open>load\<close> on a fresh object: when it returns, a
  model is present, the one decoded from the file; when the file cannot be opened it
  fails with \<open>IOError\<close>, and when the file does not decode with \<open>ModelError\<close>.
\<close>

theorem constructor_loads:
  "(\<forall>s. SupportVectorMachine_from_file ext name = Inr s \<longrightarrow>
        model s \<noteq> None \<and> (\<exists>f. fopen_rb ext name = Some f \<and> model s = svm_load_model_fp ext f))
   \<and> (fopen_rb ext name = None \<longrightarrow> SupportVectorMachine_from_file ext name = Inl IOError)
   \<and> (\<forall>f. fopen_rb ext name = Some f \<and> svm_load_model_fp ext f = None \<longrightarrow>
        SupportVectorMachine_from_file ext name = Inl ModelError)
   \<and> (\<forall>f m. fopen_rb ext name = Some f \<and> svm_load_model_fp ext f = Some m \<longrightarrow>
        (\<exists>s. SupportVectorMachine_from_file ext name = Inr s \<and> model s = Some m))"
  by (auto simp: SupportVectorMachine_from_file_def load_def load_fp_def Let_def
      split: option.splits sum.splits prod.splits if_splits)

theorem constructor_loads_witness:
  "(\<exists>s. SupportVectorMachine_from_file example_extern ''svm.model'' = Inr s
        \<and> model s = Some example_model)
   \<and> SupportVectorMachine_from_file example_extern ''missing'' = Inl IOError
   \<and> SupportVectorMachine_from_file example_extern ''bad.model'' = Inl ModelError"
  using constructor_loads [of example_extern "''svm.model''"]
    constructor_loads [of example_extern "''missing''"]
    constructor_loads [of example_extern "''bad.model''"]
  by (simp add: example_extern_def)

section \<open>train\<close>

text \<open>
  C4 (amended). When the number of labels differs from the number of descriptors, \<open>train\<close>
  fails with \<open>ValidationError\<close> and leaves the classifier as it was: nothing is released
  or allocated and the solver is not called.
\<close>

theorem train_size_mismatch:
  "length labels \<noteq> length fset \<Longrightarrow> train ext s labels fset parameter = (Inl ValidationError, s)"
  by (simp add: train_def)

theorem train_size_mismatch_witness:
  "length [1 :: real] \<noteq> length [\<lparr>rows = 1, cols = 1, channels = 2, elems = [5, 7]\<rparr>,
                                    \<lparr>rows = 1, cols = 1, channels = 2, elems = [6, 8]\<rparr>]
   \<and> train example_extern trained_example [1]
        [\<lparr>rows = 1, cols = 1, channels = 2, elems = [5, 7]\<rparr>,
         \<lparr>rows = 1, cols = 1, channels = 2, elems = [6, 8]\<rparr>] ()
       = (Inl ValidationError, trained_example)"
  using train_size_mismatch [of "[1]" "[\<lparr>rows = 1, cols = 1, channels = 2, elems = [5, 7]\<rparr>,
         \<lparr>rows = 1, cols = 1, channels = 2, elems = [6, 8]\<rparr>]" example_extern trained_example "()"]
  by simp

text \<open>
  The descriptors of a batch are not compared with each other: a batch of a 1 by 1 and a
  2 by 1 descriptor is trained on, with the dimension of the first.
\<close>

theorem train_mixed_shapes_counterexample:
  "\<not> uniform_shape [\<lparr>rows = 1, cols = 1, channels = 2, elems = [5, 7]\<rparr>,
                     \<lparr>rows = 2, cols = 1, channels = 2, elems = [6, 8, 9, 10]\<rparr>]
   \<and> fst (train example_extern SupportVectorMachine_init [1, - 1]
        [\<lparr>rows = 1, cols = 1, channels = 2, elems = [5, 7]\<rparr>,
         \<lparr>rows = 2, cols = 1, channels = 2, elems = [6, 8, 9, 10]\<rparr>] ()) = Inr ()
   \<and> trace (snd (train example_extern SupportVectorMachine_init [1, - 1]
        [\<lparr>rows = 1, cols = 1, channels = 2, elems = [5, 7]\<rparr>,
         \<lparr>rows = 2, cols = 1, channels = 2, elems = [6, 8, 9, 10]\<rparr>] ()))
       = [NewData, SolverCalled, NewModel]"
  by (simp add: uniform_shape_def train_def Feature_size_def fresh_nodes_def at_float_def
      example_extern_def emit_def SupportVectorMachine_init_def upt_rec)

text \<open>
  C5. \<open>train\<close> reads the value of node \<open>i\<close> with \<open>at<float>(i, 1)\<close>, where \<open>predict\<close> reads
  \<open>at<float>(i, 0)\<close>. For the one-element descriptor \<open>[5]\<close> there is no float 1 in row 0:
  no node with index 0 and value 5 reaches the solver.
\<close>

theorem train_reads_second_float:
  "train_problem [1] [\<lparr>rows = 1, cols = 1, channels = 1, elems = [5]\<rparr>] = Inl OutOfRange
   \<and> train_problem [1] [\<lparr>rows = 1, cols = 1, channels = 2, elems = [5, 7]\<rparr>]
       = Inr (\<lparr>prob_l = 1, prob_y = [1], prob_x = [0]\<rparr>,
              [\<lparr>index = 0, value' = 7\<rparr>, \<lparr>index = - 1, value' = 0\<rparr>])
   \<and> fill_nodes \<lparr>rows = 1, cols = 1, channels = 1, elems = [5]\<rparr> [0..<1] (fresh_nodes 2)
       = Inr [\<lparr>index = 0, value' = 5\<rparr>, \<lparr>index = 0, value' = 0\<rparr>]"
  by (simp add: train_problem_def Feature_size_def fresh_nodes_def at_float_def upt_rec
      numeral_2_eq_2)

lemma getWeights_zeros:
  "getWeights (s\<lparr>model := Some m\<rparr>) = Inr w \<Longrightarrow> v \<in> set (elems w) \<Longrightarrow> v = 0"
  by (auto simp: getWeights_def Mat_zeros_32FC2_def)

lemma train_keeps_fVecShape: "fVecShape (snd (train ext s labels fset parameter)) = fVecShape s"
  by (simp add: train_def emit_def Let_def split: list.splits prod.splits option.splits)

text \<open>
  C2. \<open>getWeights\<close> does not read the model: it returns zeros of the recorded shape, and
  \<open>train\<close> never records one. After training on two 1 by 1 descriptors whose support
  vectors are 7 and 8 with coefficients 1 and -1, the result is an empty 0 by 0 array,
  not the 1 by 1 template holding -1.
\<close>

theorem getWeights_after_train_is_empty:
  "getWeights trained_example = Inr \<lparr>rows = 0, cols = 0, channels = 2, elems = []\<rparr>
   \<and> model trained_example
       = Some \<lparr>SV = [[\<lparr>index = 0, value' = 7\<rparr>, \<lparr>index = - 1, value' = 0\<rparr>],
                      [\<lparr>index = 0, value' = 8\<rparr>, \<lparr>index = - 1, value' = 0\<rparr>]],
                sv_coef = [1, - 1], rho = 0\<rparr>"
  by (simp add: trained_example_eq getWeights_def Mat_zeros_32FC2_def)

section \<open>Ownership\<close>

text \<open>
  C7. \<open>train\<close> deletes the old buffer without clearing \<open>_data\<close> (where \<open>_deinit\<close> clears it).
  On a trained classifier, a re-train whose allocation fails leaves \<open>_data\<close> holding the
  deleted address, and the destructor deletes the buffer a second time: the trace does
  not replay. When the allocation succeeds, the new buffer is acquired while the old
  model is still held; the model is freed only before the solver is called.
\<close>

theorem retrain_failed_allocation_deletes_twice:
  "fst (train (example_extern\<lparr>new_svm_node := \<lambda>n. False\<rparr>) trained_example [1]
          [\<lparr>rows = 1, cols = 1, channels = 2, elems = [6, 8]\<rparr>] ()) = Inl BadAlloc
   \<and> data (snd (train (example_extern\<lparr>new_svm_node := \<lambda>n. False\<rparr>) trained_example [1]
          [\<lparr>rows = 1, cols = 1, channels = 2, elems = [6, 8]\<rparr>] ())) = data trained_example
   \<and> trace (destroy (snd (train (example_extern\<lparr>new_svm_node := \<lambda>n. False\<rparr>)
          trained_example [1] [\<lparr>rows = 1, cols = 1, channels = 2, elems = [6, 8]\<rparr>] ())))
       = [NewData, SolverCalled, NewModel, DeleteData, FreeModel, DeleteData]
   \<and> replay [NewData, SolverCalled, NewModel, DeleteData, FreeModel, DeleteData] (False, False)
       = None
   \<and> trace (snd (train example_extern trained_example [1]
          [\<lparr>rows = 1, cols = 1, channels = 2, elems = [6, 8]\<rparr>] ()))
       = [NewData, SolverCalled, NewModel, DeleteData, NewData, FreeModel, SolverCalled, NewModel]"
  by (simp add: trained_example_eq train_def destroy_def deinit_def Feature_size_def
      fresh_nodes_def at_float_def example_extern_def emit_def upt_rec Let_def)

section \<open>Save and load\<close>

text \<open>
  C6. When the serialised form is stable for the model a classifier holds, \<open>save\<close>
  succeeds, \<open>load\<close> of what was written into a fresh classifier succeeds and installs the
  same model, and \<open>predict\<close> gives the same score on every descriptor.
\<close>

theorem save_load_round_trip:
  assumes "model s = Some m" and "stable_form ext fp m"
  shows "\<exists>fp1 t. save ext s fp = Inr fp1
           \<and> load_fp ext SupportVectorMachine_init fp1 = (Inr (), t)
           \<and> model t = Some m
           \<and> predict ext t x = predict ext s x"
proof -
  obtain status fp1 where w: "svm_save_model_fp ext fp m = (status, fp1)"
    by (cases "svm_save_model_fp ext fp m")
  with assms(2) have ok: "status = 0" and rd: "svm_load_model_fp ext fp1 = Some m"
    by (simp_all add: stable_form_def)
  let ?t = "snd (load_fp ext SupportVectorMachine_init fp1)"
  have sv: "save ext s fp = Inr fp1"
    using assms(1) w ok by (simp add: save_def)
  have ld: "load_fp ext SupportVectorMachine_init fp1 = (Inr (), ?t)"
    using rd load_fp_fields(5) [of ext SupportVectorMachine_init fp1]
    by (simp add: prod_eq_iff)
  have mt: "model ?t = Some m"
    using rd by (simp add: load_fp_fields)
  have "predict ext ?t x = predict ext s x"
    by (rule predict_depends_on_model) (simp add: mt assms(1))
  with sv ld mt show ?thesis by blast
qed

theorem save_load_round_trip_witness:
  "save example_extern (SupportVectorMachine_init\<lparr>model := Some example_model\<rparr>) []
     = Inr ''model''
   \<and> fst (load_fp example_extern SupportVectorMachine_init ''model'') = Inr ()
   \<and> predict example_extern (snd (load_fp example_extern SupportVectorMachine_init ''model''))
        \<lparr>rows = 1, cols = 1, channels = 1, elems = [3]\<rparr> = Inr 3
   \<and> predict example_extern (SupportVectorMachine_init\<lparr>model := Some example_model\<rparr>)
        \<lparr>rows = 1, cols = 1, channels = 1, elems = [3]\<rparr> = Inr 3"
proof -
  let ?s = "SupportVectorMachine_init\<lparr>model := Some example_model\<rparr>"
  let ?x = "\<lparr>rows = 1, cols = 1, channels = 1, elems = [3]\<rparr>"
  have m: "model ?s = Some example_model"
    by simp
  have st: "stable_form example_extern [] example_model"
    by (simp add: stable_form_def example_extern_def)
  have sv: "save example_extern ?s [] = Inr ''model''"
    by (simp add: save_def example_extern_def)
  have px: "predict example_extern ?s ?x = Inr 3"
    by (simp add: predict_def Feature_size_def fresh_nodes_def at_float_def example_extern_def
        example_model_def linear_decision_def)
  from save_load_round_trip [OF m st, of ?x] obtain fp1 t
    where a: "save example_extern ?s [] = Inr fp1"
      and b: "load_fp example_extern SupportVectorMachine_init fp1 = (Inr (), t)"
      and c: "predict example_extern t ?x = predict example_extern ?s ?x"
    by blast
  from a sv have "fp1 = ''model''" by simp
  with b c sv px show ?thesis by simp
qed

section \<open>Dense evaluation and predict\<close>

subsection \<open>The node array predict builds\<close>

lemma fill_nodes_column:
  assumes "cols f = 1" "channels f = 1" "length (elems f) = rows f"
    and "\<forall>j \<in> set js. j < rows f"
  shows "fill_nodes f js buf
         = Inr (fold (\<lambda>i b. b[i := \<lparr>index = int i, value' = elems f ! i\<rparr>]) js buf)"
  using assms(4)
proof (induction js arbitrary: buf)
  case Nil
  then show ?case by simp
next
  case (Cons j js)
  have "at_float f j 0 = Inr (elems f ! j)"
    using Cons.prems assms(1-3) by (simp add: at_float_def)
  with Cons show ?case by simp
qed

lemma length_fold_update:
  "length (fold (\<lambda>i b. b[i := g i]) js buf) = length buf"
  by (induction js arbitrary: buf) simp_all

lemma nth_fold_update:
  "j < length buf \<Longrightarrow>
   fold (\<lambda>i b. b[i := g i]) js buf ! j = (if j \<in> set js then g j else buf ! j)"
  by (induction js arbitrary: buf) (auto simp: nth_list_update length_fold_update)

lemma fresh_nodes_simps:
  "length (fresh_nodes n) = n" "j < n \<Longrightarrow> fresh_nodes n ! j = \<lparr>index = 0, value' = 0\<rparr>"
  by (simp_all add: fresh_nodes_def)

lemma predict_nodes:
  "(fold (\<lambda>i b. b[i := \<lparr>index = int i, value' = xs ! i\<rparr>]) [0..<length xs]
       (fresh_nodes (length xs + 1)))
     [length xs := (fold (\<lambda>i b. b[i := \<lparr>index = int i, value' = xs ! i\<rparr>]) [0..<length xs]
       (fresh_nodes (length xs + 1)) ! length xs)\<lparr>index := - 1\<rparr>]
   = encode xs"
proof (rule nth_equalityI)
  show "length ((fold (\<lambda>i b. b[i := \<lparr>index = int i, value' = xs ! i\<rparr>]) [0..<length xs]
       (fresh_nodes (length xs + 1)))
     [length xs := (fold (\<lambda>i b. b[i := \<lparr>index = int i, value' = xs ! i\<rparr>]) [0..<length xs]
       (fresh_nodes (length xs + 1)) ! length xs)\<lparr>index := - 1\<rparr>]) = length (encode xs)"
    by (simp add: length_fold_update fresh_nodes_simps encode_def)
next
  fix j
  assume "j < length ((fold (\<lambda>i b. b[i := \<lparr>index = int i, value' = xs ! i\<rparr>]) [0..<length xs]
       (fresh_nodes (length xs + 1)))
     [length xs := (fold (\<lambda>i b. b[i := \<lparr>index = int i, value' = xs ! i\<rparr>]) [0..<length xs]
       (fresh_nodes (length xs + 1)) ! length xs)\<lparr>index := - 1\<rparr>])"
  then have j: "j < length xs + 1"
    by (simp add: length_fold_update fresh_nodes_simps)
  show "((fold (\<lambda>i b. b[i := \<lparr>index = int i, value' = xs ! i\<rparr>]) [0..<length xs]
       (fresh_nodes (length xs + 1)))
     [length xs := (fold (\<lambda>i b. b[i := \<lparr>index = int i, value' = xs ! i\<rparr>]) [0..<length xs]
       (fresh_nodes (length xs + 1)) ! length xs)\<lparr>index := - 1\<rparr>]) ! j = encode xs ! j"
  proof (cases "j = length xs")
    case True
    then show ?thesis
      by (simp add: length_fold_update nth_fold_update fresh_nodes_simps encode_def nth_append)
  next
    case False
    with j have "j < length xs" by simp
    then show ?thesis
      by (simp add: length_fold_update nth_fold_update fresh_nodes_simps encode_def nth_append)
  qed
qed

lemma predict_column:
  assumes "cols f = 1" "channels f = 1" "length (elems f) = rows f" "model s = Some m"
  shows "predict ext s f = Inr (svm_predict_values ext m (encode (elems f)))"
proof -
  have "fill_nodes f [0..<rows f] (fresh_nodes (rows f + 1))
        = Inr (fold (\<lambda>i b. b[i := \<lparr>index = int i, value' = elems f ! i\<rparr>]) [0..<rows f]
                 (fresh_nodes (rows f + 1)))"
    using assms(1-3) by (intro fill_nodes_column) simp_all
  then show ?thesis
    using assms predict_nodes [of "elems f"]
    by (simp add: predict_def Feature_size_def Let_def)
qed

subsection \<open>The sparse dot product on dense vectors\<close>

lemma dot_offset:
  assumes "length ps = n + 1" "length qs = n + 1"
    and "\<forall>i < n. index (ps ! i) = int (a + i)" "index (ps ! n) = - 1"
    and "\<forall>i < n. index (qs ! i) = int (a + i)" "index (qs ! n) = - 1"
  shows "dot ps qs = (\<Sum>i < n. value' (ps ! i) * value' (qs ! i))"
  using assms
proof (induction n arbitrary: ps qs a)
  case 0
  then obtain p q where "ps = [p]" "qs = [q]"
    by (auto simp: length_Suc_conv)
  with 0 show ?case by simp
next
  case (Suc n)
  from Suc.prems obtain p ps1 q qs1 where pq: "ps = p # ps1" "qs = q # qs1"
    by (auto simp: length_Suc_conv)
  have ip: "index p = int a" and iq: "index q = int a"
    using Suc.prems(3,5) pq by force+
  have rest: "dot ps1 qs1 = (\<Sum>i < n. value' (ps1 ! i) * value' (qs1 ! i))"
  proof (rule Suc.IH [where a = "Suc a"])
    show "length ps1 = n + 1" "length qs1 = n + 1"
      using Suc.prems(1,2) pq by simp_all
    show "\<forall>i<n. index (ps1 ! i) = int (Suc a + i)"
      using Suc.prems(3) pq by (auto dest: spec [where x = "Suc i" for i])
    show "\<forall>i<n. index (qs1 ! i) = int (Suc a + i)"
      using Suc.prems(5) pq by (auto dest: spec [where x = "Suc i" for i])
    show "index (ps1 ! n) = - 1" "index (qs1 ! n) = - 1"
      using Suc.prems(4,6) pq by simp_all
  qed
  have "dot ps qs = value' p * value' q + dot ps1 qs1"
    using pq ip iq by simp
  also have "\<dots> = (\<Sum>i < Suc n. value' (ps ! i) * value' (qs ! i))"
    by (subst sum.lessThan_Suc_shift) (simp add: rest pq)
  finally show ?case .
qed

lemma dense_encode: "dense (length xs) (encode xs)"
  by (simp add: dense_def encode_def list_all_iff nth_append)

lemma dot_dense:
  assumes "dense n ps" "dense n qs"
  shows "dot ps qs = (\<Sum>i < n. value' (ps ! i) * value' (qs ! i))"
  using assms dot_offset [of ps n qs 0]
  by (simp add: dense_def list_all_iff)

lemma value_encode: "i < length xs \<Longrightarrow> value' (encode xs ! i) = xs ! i"
  by (simp add: encode_def nth_append)

subsection \<open>From the dual form to the weight vector\<close>

lemma sum_list_sum_commute:
  "(\<Sum>x \<leftarrow> xs. \<Sum>i < n. g x i) = (\<Sum>i < n. \<Sum>x \<leftarrow> xs. g x i)"
  by (induction xs) (simp_all add: sum.distrib)

lemma linear_decision_dense:
  assumes "\<forall>sv \<in> set (SV m). dense (length xs) sv"
  shows "linear_decision m (encode xs)
         = (\<Sum>i < length xs. (\<Sum>(coeff, sv) \<leftarrow> zip (sv_coef m) (SV m). coeff * value' (sv ! i)) * xs ! i)
           - rho m"
proof -
  let ?zs = "zip (sv_coef m) (SV m)"
  have "(\<Sum>(c, sv) \<leftarrow> ?zs. c * dot (encode xs) sv)
        = (\<Sum>z \<leftarrow> ?zs. fst z * dot (encode xs) (snd z))"
    by (simp add: split_def)
  also have "\<dots> = (\<Sum>z \<leftarrow> ?zs. \<Sum>i < length xs. fst z * value' (snd z ! i) * xs ! i)"
  proof (rule arg_cong [where f = sum_list], rule map_cong [OF refl])
    fix z assume "z \<in> set ?zs"
    then have "snd z \<in> set (SV m)"
      using set_zip_rightD [of "fst z" "snd z" "sv_coef m" "SV m"] by simp
    then have "dense (length xs) (snd z)"
      using assms by blast
    then have "dot (encode xs) (snd z)
               = (\<Sum>i < length xs. value' (encode xs ! i) * value' (snd z ! i))"
      by (intro dot_dense dense_encode)
    then show "fst z * dot (encode xs) (snd z)
               = (\<Sum>i < length xs. fst z * value' (snd z ! i) * xs ! i)"
      by (simp add: value_encode sum_distrib_left mult_ac)
  qed
  also have "\<dots> = (\<Sum>i < length xs. \<Sum>z \<leftarrow> ?zs. fst z * value' (snd z ! i) * xs ! i)"
    by (rule sum_list_sum_commute)
  also have "\<dots> = (\<Sum>i < length xs. (\<Sum>z \<leftarrow> ?zs. fst z * value' (snd z ! i)) * xs ! i)"
    by (simp add: sum_list_mult_const)
  also have "\<dots> = (\<Sum>i < length xs. (\<Sum>(coeff, sv) \<leftarrow> ?zs. coeff * value' (sv ! i)) * xs ! i)"
    by (simp add: split_def)
  finally show ?thesis
    by (simp add: linear_decision_def)
qed

subsection \<open>Sums over a flattened window\<close>

lemma sum_list_upt: "(\<Sum>i \<leftarrow> [0..<n]. f i) = (\<Sum>i < n. f i)"
  by (simp add: interv_sum_list_conv_sum_set_nat atLeast0LessThan)

lemma sum_block:
  fixes g :: "nat \<Rightarrow> real"
  shows "sum g {m * n..<m * n + n} = (\<Sum>q < n. g (m * n + q))"
  using sum.shift_bounds_nat_ivl [of g 0 "m * n" n]
  by (simp add: add.commute lessThan_atLeast0)

lemma sum_split:
  fixes g :: "nat \<Rightarrow> real"
  shows "(\<Sum>i < a * b. g i) = (\<Sum>p < a. \<Sum>q < b. g (p * b + q))"
  by (simp add: sum.nat_group [symmetric] sum_block)

lemma window_index:
  fixes dr dc ch w depth :: nat
  assumes "dc < w" "ch < depth"
  shows "((dr * w + dc) * depth + ch) div (w * depth) = dr"
    and "((dr * w + dc) * depth + ch) div depth mod w = dc"
    and "((dr * w + dc) * depth + ch) mod depth = ch"
proof -
  have low: "dc * depth + ch < w * depth"
  proof -
    have "dc * depth + ch < dc * depth + depth" using assms(2) by simp
    also have "\<dots> = Suc dc * depth" by simp
    also have "\<dots> \<le> w * depth" using assms(1) by (intro mult_le_mono1) simp
    finally show ?thesis .
  qed
  have eq: "(dr * w + dc) * depth + ch = dr * (w * depth) + (dc * depth + ch)"
    by (simp add: algebra_simps)
  have pos: "0 < w * depth"
    using low by (cases "w * depth") simp_all
  have "(dr * (w * depth) + (dc * depth + ch)) div (w * depth)
        = dr + (dc * depth + ch) div (w * depth)"
    using pos by (subst div_mult_self3) simp_all
  then show "((dr * w + dc) * depth + ch) div (w * depth) = dr"
    using low by (simp only: eq div_less add_0_right)
  show "((dr * w + dc) * depth + ch) div depth mod w = dc"
    using assms by simp
  show "((dr * w + dc) * depth + ch) mod depth = ch"
    using assms by simp
qed

lemma window_bound:
  fixes dr dc ch h w depth :: nat
  assumes "dr < h" "dc < w" "ch < depth"
  shows "(dr * w + dc) * depth + ch < h * w * depth"
proof -
  have "dr * w + dc < dr * w + w" using assms(2) by simp
  also have "\<dots> = Suc dr * w" by simp
  also have "\<dots> \<le> h * w" using assms(1) by (intro mult_le_mono1) simp
  finally have j: "dr * w + dc < h * w" .
  have "(dr * w + dc) * depth + ch < (dr * w + dc) * depth + depth" using assms(3) by simp
  also have "\<dots> = Suc (dr * w + dc) * depth" by simp
  also have "\<dots> \<le> (h * w) * depth" using j by (intro mult_le_mono1) simp
  finally show ?thesis .
qed

lemma sum_window:
  fixes F :: "nat \<Rightarrow> nat \<Rightarrow> nat \<Rightarrow> real"
  assumes "\<And>dr dc ch. dr < h \<Longrightarrow> dc < w \<Longrightarrow> ch < depth \<Longrightarrow>
             g ((dr * w + dc) * depth + ch) = F dr dc ch"
  shows "(\<Sum>i < h * w * depth. g i) = (\<Sum>ch < depth. \<Sum>dr < h. \<Sum>dc < w. F dr dc ch)"
proof -
  have "(\<Sum>i < h * w * depth. g i) = (\<Sum>j < h * w. \<Sum>ch < depth. g (j * depth + ch))"
    by (rule sum_split)
  also have "\<dots> = (\<Sum>dr < h. \<Sum>dc < w. \<Sum>ch < depth. g ((dr * w + dc) * depth + ch))"
    by (rule sum_split)
  also have "\<dots> = (\<Sum>dr < h. \<Sum>dc < w. \<Sum>ch < depth. F dr dc ch)"
    by (intro sum.cong refl) (simp add: assms)
  also have "\<dots> = (\<Sum>dr < h. \<Sum>ch < depth. \<Sum>dc < w. F dr dc ch)"
    by (rule sum.cong [OF refl]) (rule sum.swap)
  also have "\<dots> = (\<Sum>ch < depth. \<Sum>dr < h. \<Sum>dc < w. F dr dc ch)"
    by (rule sum.swap)
  finally show ?thesis .
qed

subsection \<open>The dense path with the summed template\<close>

text \<open>
  With the template the spec describes (\<open>primal_weights\<close>), a model whose support vectors
  are dense vectors of the template's dimension and the linear decision function, the
  response at a window inside the map is the score of \<open>predict\<close> on the window's floats
  as one column. Values are reals here: the rounding of the sums and the narrowing of
  the score to \<open>float\<close> are left out.
\<close>

lemma summed_template_matches_predict:
  assumes m: "model s = Some m"
    and lin: "svm_predict_values ext = linear_decision"
    and sv: "\<forall>v \<in> set (SV m). dense (h * w * channels feat) v"
    and r: "r + h \<le> rows feat"
    and c: "c + w \<le> cols feat"
  shows "r < length (response_map (primal_weights m h w (channels feat)) (rho m) feat)
         \<and> c < length (response_map (primal_weights m h w (channels feat)) (rho m) feat ! r)
         \<and> predict ext s (as_column (crop feat r c h w))
             = Inr (response_map (primal_weights m h w (channels feat)) (rho m) feat ! r ! c)"
proof -
  let ?depth = "channels feat"
  let ?n = "h * w * ?depth"
  let ?W = "\<lambda>d. \<Sum>(coeff, v) \<leftarrow> zip (sv_coef m) (SV m). coeff * value' (v ! d)"
  let ?k = "primal_weights m h w ?depth"
  let ?xs = "elems (crop feat r c h w)"
  let ?resp = "response_map ?k (rho m) feat"
  have len: "length ?xs = ?n"
    by (simp add: crop_def)
  have rr: "r < length ?resp"
    using r by (simp add: response_map_def primal_weights_def)
  have cc: "c < length (?resp ! r)"
    using r c by (simp add: response_map_def primal_weights_def)
  have at: "?resp ! r ! c = (\<Sum>ch < ?depth. \<Sum>dr < h. \<Sum>dc < w.
               cell ?k dr dc ch * cell feat (r + dr) (c + dc) ch) - rho m"
    using r c by (simp add: response_map_def correlate_def sum_list_upt primal_weights_def)
  have "predict ext s (as_column (crop feat r c h w)) = Inr (linear_decision m (encode ?xs))"
    using m lin by (subst predict_column [where m = m]) (simp_all add: as_column_def)
  also have "linear_decision m (encode ?xs) = (\<Sum>i < ?n. ?W i * ?xs ! i) - rho m"
    using linear_decision_dense [of m ?xs] sv by (simp add: len)
  also have "(\<Sum>i < ?n. ?W i * ?xs ! i)
             = (\<Sum>ch < ?depth. \<Sum>dr < h. \<Sum>dc < w.
                  cell ?k dr dc ch * cell feat (r + dr) (c + dc) ch)"
  proof (rule sum_window)
    fix dr dc ch
    assume b: "dr < h" "dc < w" "ch < ?depth"
    let ?i = "(dr * w + dc) * ?depth + ch"
    have i: "?i < ?n" using b by (rule window_bound)
    have "?xs ! ?i = cell feat (r + dr) (c + dc) ch"
      using i b by (simp add: crop_def window_index del: upt_Suc)
    moreover have "cell ?k dr dc ch = ?W ?i"
      using i by (simp add: cell_def primal_weights_def del: upt_Suc)
    ultimately show "?W ?i * ?xs ! ?i = cell ?k dr dc ch * cell feat (r + dr) (c + dc) ch"
      by simp
  qed
  finally have "predict ext s (as_column (crop feat r c h w)) = Inr (?resp ! r ! c)"
    using at by simp
  with rr cc show ?thesis by blast
qed

subsection \<open>The dense path with the source's getWeights\<close>


end
